theory Spec2Isabelle
  imports Complex_Main "HOL-Library.Sublist"
begin

section \<open>Values, messages and collaborators\<close>

text \<open>
  The agents of \<^verbatim>\<open>agents.py\<close> are thin control logic around collaborators imported
  from \<^verbatim>\<open>llm_axe.core\<close>. The agents are embedded as they are written; the imported
  collaborators are parameters of the embedding (the record \<open>core\<close> below).

  A value parsed from JSON is a Python value. Python's \<^verbatim>\<open>None\<close> is \<open>JNull\<close>:
  \<^verbatim>\<open>json.loads\<close> maps \<^verbatim>\<open>null\<close> to it, and \<^verbatim>\<open>x is None\<close> cannot tell the two apart.
  A dict is \<open>JObj\<close> with its items, one per key.
\<close>

datatype json =
    JNull
  | JBool bool
  | JInt int
  | JFloat real
  | JStr string
  | JArr "json list"
  | JObj "(string \<times> json) list"

text \<open>A list or a dict is unhashable: using one as a dictionary key raises \<^verbatim>\<open>TypeError\<close>.\<close>

fun hashable :: "json \<Rightarrow> bool" where
  "hashable (JArr _) = False"
| "hashable (JObj _) = False"
| "hashable _ = True"

text \<open>A message is the dict \<^verbatim>\<open>{"role": ..., "content": ...}\<close>.\<close>

record message =
  role :: string
  content :: string

datatype exn =
    ValueError
  | TypeError
  | KeyError
  | AttributeError
  | FormatError

text \<open>
  \<^verbatim>\<open>value[key]\<close> with a string key: a dict has the key or raises \<^verbatim>\<open>KeyError\<close>; a list or a
  string wants an integer index, and nothing else can be subscripted.
\<close>

fun py_getitem :: "json \<Rightarrow> string \<Rightarrow> exn + json" where
  "py_getitem (JObj items) key =
     (case map_of items key of None \<Rightarrow> Inl KeyError | Some v \<Rightarrow> Inr v)"
| "py_getitem _ key = Inl TypeError"

text \<open>
  \<^verbatim>\<open>key in value\<close> with a string key: among the keys of a dict, among the elements of a
  list, as a substring of a string; a number, a boolean or \<^verbatim>\<open>None\<close> is not iterable.
\<close>

fun py_in :: "string \<Rightarrow> json \<Rightarrow> exn + bool" where
  "py_in key (JObj items) = Inr (key \<in> fst ` set items)"
| "py_in key (JArr xs) = Inr (JStr key \<in> set xs)"
| "py_in key (JStr s) = Inr (sublist key s)"
| "py_in key _ = Inl TypeError"

text \<open>
  The test and the read that \<^verbatim>\<open>get_search_query\<close> and \<^verbatim>\<open>search\<close> both make:
  \<^verbatim>\<open>value is not None and key in value\<close>, and \<^verbatim>\<open>value[key]\<close> when it holds. \<open>None\<close> is the
  else branch.
\<close>

definition get_if_present :: "string \<Rightarrow> json \<Rightarrow> exn + json option" where
  "get_if_present key v =
     (if v = JNull then Inr None
      else (case py_in key v of
              Inl e \<Rightarrow> Inl e
            | Inr False \<Rightarrow> Inr None
            | Inr True \<Rightarrow>
                (case py_getitem v key of
                   Inl e \<Rightarrow> Inl e
                 | Inr x \<Rightarrow> Inr (Some x))))"

text \<open>The four \<^verbatim>\<open>warnings.warn\<close> calls of the module.\<close>

datatype warning =
    WarnNoAsk
  | WarnNoFunctionAndParameters
  | WarnNotAValidFunction json
  | WarnNoValidUrl

text \<open>What an operation does to the outside, in the order it does it.\<close>

datatype event =
    LlmAsk "message list"
  | SearchCall json
  | WebRead json
  | PdfRead string
  | Warn warning

text \<open>
  The client bound to an agent: \<^verbatim>\<open>None\<close>, an object with no \<^verbatim>\<open>ask\<close> attribute, or an
  object with an \<^verbatim>\<open>ask\<close> method and a hidden state of its own that each call may change.
\<close>

datatype 'l llm =
    NoLLM
  | LLMNoAsk
  | LLM "'l \<Rightarrow> message list \<Rightarrow> string \<times> 'l" 'l

text \<open>\<^verbatim>\<open>hasattr(llm, "ask")\<close>: \<^verbatim>\<open>None\<close> has no such attribute either.\<close>

fun hasattr_ask :: "'l llm \<Rightarrow> bool" where
  "hasattr_ask (LLM _ _) = True"
| "hasattr_ask _ = False"

text \<open>\<^verbatim>\<open>llm.ask(prompts)\<close>: the response and the client after the call.\<close>

fun llm_ask :: "'l llm \<Rightarrow> message list \<Rightarrow> exn + (string \<times> 'l llm)" where
  "llm_ask (LLM f s) prompts = (case f s prompts of (resp, s') \<Rightarrow> Inr (resp, LLM f s'))"
| "llm_ask _ prompts = Inl AttributeError"

text \<open>A Python function object: its \<^verbatim>\<open>__name__\<close> and its identity.\<close>

record pyfunc =
  func_name :: string
  func_id :: nat

text \<open>
  The names imported from \<^verbatim>\<open>llm_axe.core\<close>, and the builtins the agents call on strings.
  \<open>str_format t kw\<close> is \<^verbatim>\<open>t.format(**kw)\<close>, \<open>None\<close> where it raises (a placeholder with
  no keyword); \<open>py_str\<close> is what an f-string writes for a value. \<open>safe_read_json\<close>
  returns what it parsed, or \<^verbatim>\<open>None\<close>; the agents test its result for \<^verbatim>\<open>None\<close> and for
  nothing else.
\<close>

record core =
  safe_read_json :: "string \<Rightarrow> json"
  generate_schema :: "pyfunc list \<Rightarrow> string"
  get_yaml_prompt :: "string \<Rightarrow> string \<Rightarrow> string"
  internet_search :: "json \<Rightarrow> string list"
  read_website :: "json \<Rightarrow> string"
  read_pdf :: "string \<Rightarrow> string"
  basename :: "string \<Rightarrow> string"
  str_format :: "string \<Rightarrow> (string \<times> string) list \<Rightarrow> string option"
  py_str :: "json \<Rightarrow> string"
  GENERIC_RESPONDER :: string

text \<open>What a method call leaves: its result or exception, the instance, the events.\<close>

record ('s, 'a) outcome =
  result :: "exn + 'a"
  self_after :: 's
  events :: "event list"

definition system_message :: "string \<Rightarrow> message" where
  "system_message c = \<lparr>role = ''system'', content = c\<rparr>"

definition user_message :: "string \<Rightarrow> message" where
  "user_message c = \<lparr>role = ''user'', content = c\<rparr>"

section \<open>PdfReader\<close>

text \<open>
  \<^verbatim>\<open>self.system_prompt\<close> of a PdfReader holds the template text after construction and
  a message dict after \<^verbatim>\<open>get_prompt\<close>.
\<close>

datatype prompt_slot = PromptText string | PromptMessage message

record 'l PdfReader =
  pr_llm :: "'l llm"
  pr_pdf_files :: "string list option"
  pr_additional_instructions :: string
  pr_system_prompt :: prompt_slot
  pr_custom_system_prompt :: "string option"

definition PdfReader_init ::
  "core \<Rightarrow> 'l llm \<Rightarrow> string list option \<Rightarrow> string \<Rightarrow> string option \<Rightarrow> 'l PdfReader" where
  "PdfReader_init c llm pdf_files additional_system_instructions custom_system_prompt =
     \<lparr>pr_llm = llm,
      pr_pdf_files = pdf_files,
      pr_additional_instructions = additional_system_instructions,
      pr_system_prompt = PromptText (get_yaml_prompt c ''system_prompts.yaml'' ''DocumentReader''),
      pr_custom_system_prompt = custom_system_prompt\<rparr>"

text \<open>The loop of \<^verbatim>\<open>get_prompt\<close> over the files of the call.\<close>

fun pdf_text_loop :: "core \<Rightarrow> string \<Rightarrow> string list \<Rightarrow> string" where
  "pdf_text_loop c pdf_text [] = pdf_text"
| "pdf_text_loop c pdf_text (pdf_file # rest) =
     pdf_text_loop c
       ((pdf_text @ ''Contents of document '' @ basename c pdf_file @ '' :'' @ [CHR 0x0A])
          @ read_pdf c pdf_file @ [CHR 0x0A, CHR 0x0A])
       rest"

definition PdfReader_get_prompt ::
  "core \<Rightarrow> 'l PdfReader \<Rightarrow> string \<Rightarrow> string list option \<Rightarrow> ('l PdfReader, message list) outcome" where
  "PdfReader_get_prompt c self question pdf_files =
     (case pdf_files of
        None \<Rightarrow> \<lparr>result = Inl TypeError, self_after = self, events = []\<rparr>
      | Some files \<Rightarrow>
          let pdf_text = pdf_text_loop c [] files;
              evs = map PdfRead files;
              template = (case pr_custom_system_prompt self of
                            None \<Rightarrow> get_yaml_prompt c ''system_prompts.yaml'' ''DocumentReader''
                          | Some custom \<Rightarrow> custom);
              self1 = self\<lparr>pr_system_prompt := PromptText template\<rparr>
          in (case str_format c template
                     [(''documents'', pdf_text),
                      (''additional_instructions'', pr_additional_instructions self)] of
                None \<Rightarrow> \<lparr>result = Inl FormatError, self_after = self1, events = evs\<rparr>
              | Some text \<Rightarrow>
                  let system_prompt = system_message text;
                      self2 = self1\<lparr>pr_system_prompt := PromptMessage system_prompt\<rparr>;
                      user_prompt = user_message question
                  in \<lparr>result = Inr [system_prompt, user_prompt],
                      self_after = self2, events = evs\<rparr>))"

definition PdfReader_ask ::
  "core \<Rightarrow> 'l PdfReader \<Rightarrow> string \<Rightarrow> string list option \<Rightarrow> ('l PdfReader, string) outcome" where
  "PdfReader_ask c self question pdf_files =
     (if pr_llm self = NoLLM
      then \<lparr>result = Inl ValueError, self_after = self, events = []\<rparr>
      else
        let got = PdfReader_get_prompt c self question pdf_files
        in (case result got of
              Inl e \<Rightarrow> \<lparr>result = Inl e, self_after = self_after got, events = events got\<rparr>
            | Inr prompts \<Rightarrow>
                (case llm_ask (pr_llm (self_after got)) prompts of
                   Inl e \<Rightarrow> \<lparr>result = Inl e, self_after = self_after got, events = events got\<rparr>
                 | Inr (resp, llm') \<Rightarrow>
                     \<lparr>result = Inr resp,
                      self_after = (self_after got)\<lparr>pr_llm := llm'\<rparr>,
                      events = events got @ [LlmAsk prompts]\<rparr>)))"

section \<open>FunctionCaller\<close>

text \<open>What \<^verbatim>\<open>get_function\<close> returns on success: the dict with these four keys.\<close>

record decision =
  dec_function :: pyfunc
  dec_parameters :: json
  dec_prompts :: "message list"
  dec_raw_response :: string

record 'l FunctionCaller =
  fc_llm :: "'l llm"
  fc_functions_dict :: "string \<rightharpoonup> pyfunc"
  fc_additional_instructions :: string
  fc_schema :: string
  fc_system_prompt :: message

text \<open>The comprehension \<^verbatim>\<open>{func.__name__: func for func in functions}\<close>.\<close>

definition functions_dict :: "pyfunc list \<Rightarrow> (string \<rightharpoonup> pyfunc)" where
  "functions_dict functions = fold (\<lambda>func d. d(func_name func \<mapsto> func)) functions Map.empty"

definition FunctionCaller_init ::
  "core \<Rightarrow> 'l llm \<Rightarrow> pyfunc list option \<Rightarrow> string \<Rightarrow> string option \<Rightarrow> exn + 'l FunctionCaller" where
  "FunctionCaller_init c llm functions additional_system_instructions custom_system_prompt =
     (case functions of
        None \<Rightarrow> Inl TypeError
      | Some funcs \<Rightarrow>
          let schema = generate_schema c funcs;
              template = (case custom_system_prompt of
                            None \<Rightarrow> get_yaml_prompt c ''system_prompts.yaml'' ''FunctionCaller''
                          | Some custom \<Rightarrow> custom)
          in (case str_format c template
                     [(''schema'', schema),
                      (''additional_instructions'', additional_system_instructions)] of
                None \<Rightarrow> Inl FormatError
              | Some text \<Rightarrow>
                  Inr \<lparr>fc_llm = llm,
                       fc_functions_dict = functions_dict funcs,
                       fc_additional_instructions = additional_system_instructions,
                       fc_schema = schema,
                       fc_system_prompt = system_message text\<rparr>))"

text \<open>
  Looking a parsed value up in \<^verbatim>\<open>self.functions_dict\<close>, for the test
  \<^verbatim>\<open>function_name in self.functions_dict\<close> and the read
  \<^verbatim>\<open>self.functions_dict[function_name]\<close> after it: the keys are strings, so only a
  string can be among them; any other hashable value is absent; an unhashable one raises.
\<close>

fun dict_lookup :: "(string \<rightharpoonup> pyfunc) \<Rightarrow> json \<Rightarrow> exn + pyfunc option" where
  "dict_lookup d (JStr name) = Inr (d name)"
| "dict_lookup d v = (if hashable v then Inr None else Inl TypeError)"

definition FunctionCaller_get_function ::
  "core \<Rightarrow> 'l FunctionCaller \<Rightarrow> string \<Rightarrow> ('l FunctionCaller, decision option) outcome" where
  "FunctionCaller_get_function c self question =
     (if fc_llm self = NoLLM
      then \<lparr>result = Inl ValueError, self_after = self, events = []\<rparr>
      else if \<not> hasattr_ask (fc_llm self)
      then \<lparr>result = Inr None, self_after = self, events = [Warn WarnNoAsk]\<rparr>
      else
        let user_prompt = user_message question;
            prompts = [fc_system_prompt self, user_prompt]
        in (case llm_ask (fc_llm self) prompts of
              Inl e \<Rightarrow> \<lparr>result = Inl e, self_after = self, events = []\<rparr>
            | Inr (response, llm') \<Rightarrow>
                let self1 = self\<lparr>fc_llm := llm'\<rparr>;
                    asked = [LlmAsk prompts];
                    response_json = safe_read_json c response;
                    no_function_and_parameters =
                      \<lparr>result = Inr None, self_after = self1,
                       events = asked @ [Warn WarnNoFunctionAndParameters]\<rparr>
                in if response_json = JNull
                   then \<lparr>result = Inr None, self_after = self1, events = asked\<rparr>
                   else
                     (case py_getitem response_json ''function'' of
                        Inl e \<Rightarrow>
                          if e = KeyError then no_function_and_parameters
                          else \<lparr>result = Inl e, self_after = self1, events = asked\<rparr>
                      | Inr function_name \<Rightarrow>
                          (case py_getitem response_json ''parameters'' of
                             Inl e \<Rightarrow>
                               if e = KeyError then no_function_and_parameters
                               else \<lparr>result = Inl e, self_after = self1, events = asked\<rparr>
                           | Inr parameters \<Rightarrow>
                               (case dict_lookup (fc_functions_dict self) function_name of
                                  Inl e \<Rightarrow>
                                    \<lparr>result = Inl e, self_after = self1, events = asked\<rparr>
                                | Inr None \<Rightarrow>
                                    \<lparr>result = Inr None, self_after = self1,
                                     events = asked
                                       @ [Warn (WarnNotAValidFunction function_name)]\<rparr>
                                | Inr (Some func) \<Rightarrow>
                                    \<lparr>result = Inr (Some \<lparr>dec_function = func,
                                                          dec_parameters = parameters,
                                                          dec_prompts = prompts,
                                                          dec_raw_response = response\<rparr>),
                                     self_after = self1, events = asked\<rparr>)))))"

definition FunctionCaller_get_prompt :: "'l FunctionCaller \<Rightarrow> string \<Rightarrow> message list" where
  "FunctionCaller_get_prompt self question = [fc_system_prompt self, user_message question]"

section \<open>Agent\<close>

record 'l Agent =
  ag_llm :: "'l llm"
  ag_system_prompt :: message

text \<open>\<open>agent_type\<close> is the \<^verbatim>\<open>.value\<close> of the \<^verbatim>\<open>AgentType\<close> member, when one is given.\<close>

definition Agent_init ::
  "core \<Rightarrow> 'l llm \<Rightarrow> string option \<Rightarrow> string \<Rightarrow> string option \<Rightarrow> exn + 'l Agent" where
  "Agent_init c llm agent_type additional_system_instructions custom_system_prompt =
     (case (case custom_system_prompt of
              None \<Rightarrow> (case agent_type of
                          None \<Rightarrow> Inl ValueError
                        | Some v \<Rightarrow> Inr (get_yaml_prompt c ''system_prompts.yaml'' v))
            | Some custom \<Rightarrow> Inr custom) of
        Inl e \<Rightarrow> Inl e
      | Inr template \<Rightarrow>
          (case str_format c template
                  [(''additional_instructions'', additional_system_instructions)] of
             None \<Rightarrow> Inl FormatError
           | Some text \<Rightarrow> Inr \<lparr>ag_llm = llm, ag_system_prompt = system_message text\<rparr>))"

definition Agent_get_prompt :: "'l Agent \<Rightarrow> string \<Rightarrow> message list" where
  "Agent_get_prompt self question = [ag_system_prompt self, user_message question]"

text \<open>\<^verbatim>\<open>ask\<close> returns the response, or \<^verbatim>\<open>None\<close> after the warning.\<close>

definition Agent_ask :: "'l Agent \<Rightarrow> string \<Rightarrow> ('l Agent, string option) outcome" where
  "Agent_ask self prompt =
     (if \<not> hasattr_ask (ag_llm self)
      then \<lparr>result = Inr None, self_after = self, events = [Warn WarnNoAsk]\<rparr>
      else
        let prompts = [ag_system_prompt self, user_message prompt]
        in (case llm_ask (ag_llm self) prompts of
              Inl e \<Rightarrow> \<lparr>result = Inl e, self_after = self, events = []\<rparr>
            | Inr (resp, llm') \<Rightarrow>
                \<lparr>result = Inr (Some resp), self_after = self\<lparr>ag_llm := llm'\<rparr>,
                 events = [LlmAsk prompts]\<rparr>))"

section \<open>OnlineAgent\<close>

record 'l OnlineAgent =
  oa_llm :: "'l llm"
  oa_system_prompt :: message
  oa_search_function :: "json \<Rightarrow> string list"

definition OnlineAgent_init ::
  "core \<Rightarrow> 'l llm \<Rightarrow> string \<Rightarrow> (json \<Rightarrow> string list) option \<Rightarrow> exn + 'l OnlineAgent" where
  "OnlineAgent_init c llm additional_system_instructions custom_searcher =
     (case str_format c (get_yaml_prompt c ''system_prompts.yaml'' ''OnlineSearcher'')
             [(''additional_instructions'', additional_system_instructions)] of
        None \<Rightarrow> Inl FormatError
      | Some text \<Rightarrow>
          Inr \<lparr>oa_llm = llm,
               oa_system_prompt = system_message text,
               oa_search_function = (case custom_searcher of
                                       Some searcher \<Rightarrow> searcher
                                     | None \<Rightarrow> internet_search c)\<rparr>)"

text \<open>The value under \<^verbatim>\<open>search_query\<close>, or \<^verbatim>\<open>None\<close> (which is \<open>JNull\<close>).\<close>

definition OnlineAgent_get_search_query ::
  "core \<Rightarrow> 'l OnlineAgent \<Rightarrow> string \<Rightarrow> ('l OnlineAgent, json) outcome" where
  "OnlineAgent_get_search_query c self question =
     (let user_prompt = user_message question;
          prompts = [oa_system_prompt self, user_prompt]
      in (case llm_ask (oa_llm self) prompts of
            Inl e \<Rightarrow> \<lparr>result = Inl e, self_after = self, events = []\<rparr>
          | Inr (response, llm') \<Rightarrow>
              let self1 = self\<lparr>oa_llm := llm'\<rparr>;
                  response_json = safe_read_json c response
              in (case get_if_present ''search_query'' response_json of
                    Inl e \<Rightarrow> \<lparr>result = Inl e, self_after = self1, events = [LlmAsk prompts]\<rparr>
                  | Inr (Some query) \<Rightarrow>
                      \<lparr>result = Inr query, self_after = self1, events = [LlmAsk prompts]\<rparr>
                  | Inr None \<Rightarrow>
                      \<lparr>result = Inr JNull, self_after = self1, events = [LlmAsk prompts]\<rparr>)))"

text \<open>\<^verbatim>\<open>" ".join(search_results)\<close>.\<close>

fun join_spaces :: "string list \<Rightarrow> string" where
  "join_spaces [] = []"
| "join_spaces [x] = x"
| "join_spaces (x # y # rest) = x @ '' '' @ join_spaces (y # rest)"

text \<open>The f-string of \<^verbatim>\<open>search\<close>, line by line; every line but two is indented by 20 spaces.\<close>

definition indent :: string where
  "indent = ''                    ''"

definition final_user_prompt :: "core \<Rightarrow> json \<Rightarrow> string \<Rightarrow> string \<Rightarrow> string" where
  "final_user_prompt c url website_text prompt =
     [CHR 0x0A]
     @ indent @ ''Please read the following information:'' @ [CHR 0x0A]
     @ indent @ [CHR 0x0A]
     @ indent @ ''Information about Website '' @ py_str c url @ '': '' @ [CHR 0x0A]
     @ indent @ website_text @ [CHR 0x0A]
     @ [CHR 0x0A]
     @ indent @ ''Answer the following question based on the above information: '' @ [CHR 0x0A]
     @ indent @ prompt @ [CHR 0x0A]
     @ [CHR 0x0A]
     @ indent @ ''Start your answer with '' @ [CHR 0x22]
         @ ''Based on information from the internet, '' @ [CHR 0x22, CHR 0x0A]
     @ indent"

definition OnlineAgent_search ::
  "core \<Rightarrow> 'l OnlineAgent \<Rightarrow> string \<Rightarrow> ('l OnlineAgent, string option) outcome" where
  "OnlineAgent_search c self prompt =
     (let got = OnlineAgent_get_search_query c self prompt;
          self1 = self_after got;
          ev1 = events got
      in (case result got of
            Inl e \<Rightarrow> \<lparr>result = Inl e, self_after = self1, events = ev1\<rparr>
          | Inr query \<Rightarrow>
              if query = JNull
              then \<lparr>result = Inr None, self_after = self1, events = ev1\<rparr>
              else
                let search_results = join_spaces (oa_search_function self1 query);
                    ev2 = ev1 @ [SearchCall query]
                in (case str_format c (get_yaml_prompt c ''system_prompts.yaml'' ''UrlPicker'')
                           [(''question'', prompt), (''urls'', search_results)] of
                      None \<Rightarrow> \<lparr>result = Inl FormatError, self_after = self1, events = ev2\<rparr>
                    | Some text \<Rightarrow>
                        let url_picker_prompt = system_message text
                        in (case llm_ask (oa_llm self1) [url_picker_prompt] of
                              Inl e \<Rightarrow> \<lparr>result = Inl e, self_after = self1, events = ev2\<rparr>
                            | Inr (resp, llm') \<Rightarrow>
                                let self2 = self1\<lparr>oa_llm := llm'\<rparr>;
                                    ev3 = ev2 @ [LlmAsk [url_picker_prompt]];
                                    resp_json = safe_read_json c resp
                                in (case get_if_present ''url'' resp_json of
                                      Inl e \<Rightarrow>
                                        \<lparr>result = Inl e, self_after = self2, events = ev3\<rparr>
                                    | Inr None \<Rightarrow>
                                        \<lparr>result = Inr None, self_after = self2,
                                         events = ev3 @ [Warn WarnNoValidUrl]\<rparr>
                                    | Inr (Some url) \<Rightarrow>
                                        let website_text = read_website c url;
                                            ev4 = ev3 @ [WebRead url];
                                            user_prompt = final_user_prompt c url website_text prompt
                                        in (case Agent_init c (oa_llm self2)
                                                   (Some (GENERIC_RESPONDER c)) [] None of
                                              Inl e \<Rightarrow>
                                                \<lparr>result = Inl e, self_after = self2, events = ev4\<rparr>
                                            | Inr final_responder \<Rightarrow>
                                                let answered = Agent_ask final_responder user_prompt
                                                in \<lparr>result = result answered,
                                                    self_after =
                                                      self2\<lparr>oa_llm := ag_llm (self_after answered)\<rparr>,
                                                    events = ev4 @ events answered\<rparr>))))))"

section \<open>What a run did\<close>

text \<open>The transcripts a run sent to the client, and the calls it made to the collaborators.\<close>

fun asked :: "event list \<Rightarrow> message list list" where
  "asked [] = []"
| "asked (LlmAsk prompts # evs) = prompts # asked evs"
| "asked (_ # evs) = asked evs"

fun search_calls :: "event list \<Rightarrow> json list" where
  "search_calls [] = []"
| "search_calls (SearchCall query # evs) = query # search_calls evs"
| "search_calls (_ # evs) = search_calls evs"

fun web_reads :: "event list \<Rightarrow> json list" where
  "web_reads [] = []"
| "web_reads (WebRead url # evs) = url # web_reads evs"
| "web_reads (_ # evs) = web_reads evs"

text \<open>A transcript of one system message followed by one user message.\<close>

definition system_then_user :: "message list \<Rightarrow> bool" where
  "system_then_user prompts = (map role prompts = [''system'', ''user''])"

text \<open>A client answers the same transcript the same way, whatever its hidden state.\<close>

definition deterministic :: "'l llm \<Rightarrow> bool" where
  "deterministic llm =
     (case llm of
        LLM f s \<Rightarrow> \<forall>s1 s2 prompts. fst (f s1 prompts) = fst (f s2 prompts)
      | _ \<Rightarrow> True)"

section \<open>Example collaborators and instances\<close>

text \<open>
  A client that replays a list of canned responses, one per call, and collaborators that
  know the texts of the scenarios: a registry with \<^verbatim>\<open>get_weather\<close>, and a search for the
  capital of France. The parser of the example gives each JSON text it knows its value,
  object or not, and \<^verbatim>\<open>None\<close> for any other text.
\<close>

definition scripted :: "string list \<Rightarrow> string list llm" where
  "scripted responses = LLM (\<lambda>s prompts. case s of [] \<Rightarrow> ([], []) | r # rest \<Rightarrow> (r, rest)) responses"

definition weather_text :: string where
  \<open>weather_text = ''{"function":"get_weather","parameters":{"city":"Paris"}}''\<close>

definition example_core :: core where
  \<open>example_core =
     \<lparr>safe_read_json = (\<lambda>text.
          if text = ''{"function":"get_weather","parameters":{"city":"Paris"}}''
          then JObj [(''function'', JStr ''get_weather''),
                     (''parameters'', JObj [(''city'', JStr ''Paris'')])]
          else if text = ''{"function":"get_flights","parameters":{}}''
          then JObj [(''function'', JStr ''get_flights''), (''parameters'', JObj [])]
          else if text = ''{"function":["get_weather"],"parameters":{}}''
          then JObj [(''function'', JArr [JStr ''get_weather'']), (''parameters'', JObj [])]
          else if text = ''{"parameters":{}}''
          then JObj [(''parameters'', JObj [])]
          else if text = ''{"search_query":"capital of France"}''
          then JObj [(''search_query'', JStr ''capital of France'')]
          else if text = ''{"url":"http://a.example"}''
          then JObj [(''url'', JStr ''http://a.example'')]
          else if text = ''{}''
          then JObj []
          else if text = ''[1, 2]''
          then JArr [JInt 1, JInt 2]
          else if text = ''42''
          then JInt 42
          else JNull),
      generate_schema = (\<lambda>functions. concat (map func_name functions)),
      get_yaml_prompt = (\<lambda>file key. key),
      internet_search = (\<lambda>query. [''http://a.example'', ''http://b.example'']),
      read_website = (\<lambda>url. ''Paris is the capital of France.''),
      read_pdf = (\<lambda>path. ''contents''),
      basename = (\<lambda>path. path),
      str_format = (\<lambda>template kw. Some (template @ concat (map snd kw))),
      py_str = (\<lambda>v. case v of JStr s \<Rightarrow> s | _ \<Rightarrow> []),
      GENERIC_RESPONDER = ''GenericResponder''\<rparr>\<close>

definition get_weather :: pyfunc where
  "get_weather = \<lparr>func_name = ''get_weather'', func_id = 0\<rparr>"

definition get_weather_again :: pyfunc where
  "get_weather_again = \<lparr>func_name = ''get_weather'', func_id = 1\<rparr>"

definition weather_caller :: "string list \<Rightarrow> string list FunctionCaller" where
  "weather_caller responses =
     \<lparr>fc_llm = scripted responses,
      fc_functions_dict = [''get_weather'' \<mapsto> get_weather],
      fc_additional_instructions = [],
      fc_schema = ''get_weather'',
      fc_system_prompt = system_message ''FunctionCallerget_weather''\<rparr>"

definition example_searcher :: "string list \<Rightarrow> string list OnlineAgent" where
  "example_searcher responses =
     \<lparr>oa_llm = scripted responses,
      oa_system_prompt = system_message ''OnlineSearcher'',
      oa_search_function = internet_search example_core\<rparr>"

definition capital_responses :: "string list" where
  \<open>capital_responses =
     [''{"search_query":"capital of France"}'',
      ''{"url":"http://a.example"}'',
      ''Based on information from the internet, Paris is the capital of France.'']\<close>

text \<open>A client that always gives the same response, and a responder and a reader bound to it.\<close>

definition constant_client :: "string \<Rightarrow> string list llm" where
  "constant_client response = LLM (\<lambda>s prompts. (response, s)) []"

definition constant_responder :: "string \<Rightarrow> string list Agent" where
  "constant_responder response =
     \<lparr>ag_llm = constant_client response, ag_system_prompt = system_message ''GenericResponder''\<rparr>"

definition constant_reader :: "string \<Rightarrow> string list PdfReader" where
  "constant_reader response = PdfReader_init example_core (constant_client response) None [] None"

section \<open>Auxiliary facts\<close>

lemma asked_append [simp]: "asked (xs @ ys) = asked xs @ asked ys"
  by (induction xs rule: asked.induct) simp_all

lemma search_calls_append [simp]: "search_calls (xs @ ys) = search_calls xs @ search_calls ys"
  by (induction xs rule: search_calls.induct) simp_all

lemma web_reads_append [simp]: "web_reads (xs @ ys) = web_reads xs @ web_reads ys"
  by (induction xs rule: web_reads.induct) simp_all



lemma find_append_cases:
  "find P (xs @ ys) = (case find P xs of None \<Rightarrow> find P ys | Some x \<Rightarrow> Some x)"
  by (induction xs) simp_all

lemma functions_dict_fold:
  "fold (\<lambda>func d. d(func_name func \<mapsto> func)) funcs d0 name =
     (case find (\<lambda>func. func_name func = name) (rev funcs) of
        None \<Rightarrow> d0 name | Some func \<Rightarrow> Some func)"
  by (induction funcs arbitrary: d0) (auto simp add: find_append_cases split: option.splits)

lemma functions_dict_last_wins:
  "functions_dict funcs name = find (\<lambda>func. func_name func = name) (rev funcs)"
  by (simp add: functions_dict_def functions_dict_fold split: option.splits)

lemma get_function_asks:
  assumes "fc_llm self = LLM f s"
    and "f s [fc_system_prompt self, user_message question] = (response, s')"
  shows "llm_ask (fc_llm self) [fc_system_prompt self, user_message question]
           = Inr (response, LLM f s')"
    and "fc_llm self \<noteq> NoLLM" and "hasattr_ask (fc_llm self)"
  using assms by simp_all









lemma weather_caller_init:
  "FunctionCaller_init example_core (scripted responses) (Some [get_weather]) [] None
     = Inr (weather_caller responses)"
  by (simp add: FunctionCaller_init_def example_core_def functions_dict_def weather_caller_def
      get_weather_def Let_def)

lemma example_searcher_init:
  "OnlineAgent_init example_core (scripted responses) [] None = Inr (example_searcher responses)"
  by (simp add: OnlineAgent_init_def example_searcher_def example_core_def)

lemma FunctionCaller_init_system_prompt:
  "FunctionCaller_init c llm funcs additional custom = Inr self \<Longrightarrow>
     role (fc_system_prompt self) = ''system''"
  by (auto simp add: FunctionCaller_init_def Let_def system_message_def
      split: option.splits)

lemma Agent_init_system_prompt:
  "Agent_init c llm agent_type additional custom = Inr self \<Longrightarrow>
     role (ag_system_prompt self) = ''system''"
  by (auto simp add: Agent_init_def system_message_def split: option.splits sum.splits)

lemma OnlineAgent_init_system_prompt:
  "OnlineAgent_init c llm additional searcher = Inr self \<Longrightarrow>
     role (oa_system_prompt self) = ''system''"
  by (auto simp add: OnlineAgent_init_def system_message_def split: option.splits)

lemma get_function_asked:
  "asked (events (FunctionCaller_get_function c self question)) = []
   \<or> asked (events (FunctionCaller_get_function c self question))
       = [[fc_system_prompt self, user_message question]]"
  by (simp add: FunctionCaller_get_function_def Let_def
      split: sum.splits option.splits prod.splits)

lemma PdfReader_get_prompt_result:
  "result (PdfReader_get_prompt c self question pdf_files) = Inr prompts \<Longrightarrow>
     system_then_user prompts \<and> events (PdfReader_get_prompt c self question pdf_files)
       = map PdfRead (the pdf_files)"
  by (auto simp add: PdfReader_get_prompt_def Let_def system_then_user_def system_message_def
      user_message_def split: option.splits)

lemma asked_PdfRead [simp]: "asked (map PdfRead files) = []"
  by (induction files) simp_all

lemma PdfReader_get_prompt_asked [simp]:
  "asked (events (PdfReader_get_prompt c self question pdf_files)) = []"
  by (simp add: PdfReader_get_prompt_def Let_def split: option.splits)

lemma PdfReader_ask_asked:
  "list_all system_then_user (asked (events (PdfReader_ask c self question pdf_files)))"
  using PdfReader_get_prompt_result [of c self question pdf_files]
  by (auto simp add: PdfReader_ask_def Let_def split: sum.splits prod.splits)

lemma Agent_ask_asked:
  "asked (events (Agent_ask self prompt)) = []
   \<or> asked (events (Agent_ask self prompt)) = [[ag_system_prompt self, user_message prompt]]"
  by (simp add: Agent_ask_def Let_def split: sum.splits prod.splits)

lemma get_search_query_asked:
  "asked (events (OnlineAgent_get_search_query c self question)) = []
   \<or> asked (events (OnlineAgent_get_search_query c self question))
       = [[oa_system_prompt self, user_message question]]"
  by (simp add: OnlineAgent_get_search_query_def Let_def
      split: sum.splits option.splits prod.splits)

lemma get_search_query_events:
  "(\<exists>e. result (OnlineAgent_get_search_query c self question) = Inl e
        \<and> events (OnlineAgent_get_search_query c self question) = [])
   \<or> events (OnlineAgent_get_search_query c self question)
       = [LlmAsk [oa_system_prompt self, user_message question]]"
  by (simp add: OnlineAgent_get_search_query_def Let_def
      split: sum.splits option.splits prod.splits)

lemma Agent_ask_roles:
  "role (ag_system_prompt self) = ''system'' \<Longrightarrow>
     map (map role) (asked (events (Agent_ask self prompt))) = []
     \<or> map (map role) (asked (events (Agent_ask self prompt))) = [[''system'', ''user'']]"
  using Agent_ask_asked [of self prompt] by (auto simp add: user_message_def)

lemma final_responder_roles:
  assumes "Agent_init c llm agent_type additional custom = Inr responder"
  shows "prefix (map (map role) (asked (events (Agent_ask responder prompt))))
           [[''system'', ''user'']]"
  using Agent_ask_roles [OF Agent_init_system_prompt [OF assms], of prompt] by auto

lemma search_asked:
  assumes "role (oa_system_prompt self) = ''system''"
  shows "prefix (map (map role) (asked (events (OnlineAgent_search c self prompt))))
           [[''system'', ''user''], [''system''], [''system'', ''user'']]"
  using get_search_query_events [of c self prompt] assms
  by (auto simp add: OnlineAgent_search_def Let_def system_message_def user_message_def
      final_responder_roles split: sum.splits option.splits prod.splits)

lemma deterministic_response:
  "deterministic (LLM f s) \<Longrightarrow> fst (f s1 prompts) = fst (f s2 prompts)"
  by (simp add: deterministic_def)

lemma llm_ask_again:
  assumes "deterministic llm"
    and "llm_ask llm prompts = Inr (resp, llm')"
  shows "\<exists>llm''. llm_ask llm' prompts = Inr (resp, llm'')"
proof (cases llm)
  case (LLM f s)
  obtain s' where first: "f s prompts = (resp, s')" and llm': "llm' = LLM f s'"
    using assms(2) LLM by (auto split: prod.splits)
  obtain resp2 s2 where second: "f s' prompts = (resp2, s2)"
    by (cases "f s' prompts")
  have "resp2 = resp"
    using deterministic_response [of f s s' prompts s] assms(1) LLM first second by simp
  then show ?thesis
    using llm' second by simp
qed (use assms in simp_all)

lemma Agent_ask_twice:
  assumes "deterministic (ag_llm agent)"
  shows "result (Agent_ask (self_after (Agent_ask agent prompt)) prompt)
           = result (Agent_ask agent prompt)
         \<and> events (Agent_ask (self_after (Agent_ask agent prompt)) prompt)
           = events (Agent_ask agent prompt)"
proof (cases "llm_ask (ag_llm agent) [ag_system_prompt agent, user_message prompt]")
  case (Inl e)
  then show ?thesis
    by (simp add: Agent_ask_def)
next
  case (Inr answered)
  obtain resp llm' where answered: "answered = (resp, llm')"
    by (cases answered)
  obtain llm'' where again:
    "llm_ask llm' [ag_system_prompt agent, user_message prompt] = Inr (resp, llm'')"
    using llm_ask_again [OF assms] Inr answered by blast
  have has: "hasattr_ask (ag_llm agent)" "hasattr_ask llm'"
    using Inr answered by (cases "ag_llm agent"; auto split: prod.splits)+
  show ?thesis
    using Inr answered again has by (simp add: Agent_ask_def)
qed

lemma PdfReader_get_prompt_again:
  assumes "pr_custom_system_prompt other = pr_custom_system_prompt reader"
    and "pr_additional_instructions other = pr_additional_instructions reader"
  shows "result (PdfReader_get_prompt c other question pdf_files)
           = result (PdfReader_get_prompt c reader question pdf_files)
         \<and> events (PdfReader_get_prompt c other question pdf_files)
           = events (PdfReader_get_prompt c reader question pdf_files)"
  using assms by (simp add: PdfReader_get_prompt_def Let_def split: option.splits)

lemma PdfReader_get_prompt_keeps:
  "pr_llm (self_after (PdfReader_get_prompt c reader question pdf_files)) = pr_llm reader"
  "pr_custom_system_prompt (self_after (PdfReader_get_prompt c reader question pdf_files))
     = pr_custom_system_prompt reader"
  "pr_additional_instructions (self_after (PdfReader_get_prompt c reader question pdf_files))
     = pr_additional_instructions reader"
  by (simp_all add: PdfReader_get_prompt_def Let_def split: option.splits)

lemma PdfReader_ask_twice:
  assumes "deterministic (pr_llm reader)"
  shows "result (PdfReader_ask c (self_after (PdfReader_ask c reader question pdf_files))
             question pdf_files)
           = result (PdfReader_ask c reader question pdf_files)
         \<and> events (PdfReader_ask c (self_after (PdfReader_ask c reader question pdf_files))
             question pdf_files)
           = events (PdfReader_ask c reader question pdf_files)"
proof (cases "pr_llm reader = NoLLM")
  case True
  then show ?thesis by (simp add: PdfReader_ask_def)
next
  case present: False
  let ?got = "PdfReader_get_prompt c reader question pdf_files"
  note keeps = PdfReader_get_prompt_keeps
  show ?thesis
  proof (cases "result ?got")
    case (Inl e)
    have after: "self_after (PdfReader_ask c reader question pdf_files) = self_after ?got"
      using present Inl by (simp add: PdfReader_ask_def Let_def)
    have again: "result (PdfReader_get_prompt c (self_after ?got) question pdf_files) = result ?got
        \<and> events (PdfReader_get_prompt c (self_after ?got) question pdf_files) = events ?got"
      by (intro PdfReader_get_prompt_again) (simp_all add: keeps)
    show ?thesis
      using present Inl again by (simp add: PdfReader_ask_def Let_def after keeps)
  next
    case (Inr prompts)
    show ?thesis
    proof (cases "llm_ask (pr_llm reader) prompts")
      case failed: (Inl e)
      have after: "self_after (PdfReader_ask c reader question pdf_files) = self_after ?got"
        using present Inr failed by (simp add: PdfReader_ask_def Let_def keeps)
      have again: "result (PdfReader_get_prompt c (self_after ?got) question pdf_files)
          = result ?got
          \<and> events (PdfReader_get_prompt c (self_after ?got) question pdf_files) = events ?got"
        by (intro PdfReader_get_prompt_again) (simp_all add: keeps)
      show ?thesis
        using present Inr failed again
        by (simp add: PdfReader_ask_def Let_def after keeps)
    next
      case answered: (Inr pair)
      obtain resp llm' where pair: "pair = (resp, llm')"
        by (cases pair)
      let ?after = "(self_after ?got)\<lparr>pr_llm := llm'\<rparr>"
      have after: "self_after (PdfReader_ask c reader question pdf_files) = ?after"
        using present Inr answered pair by (simp add: PdfReader_ask_def Let_def keeps)
      have again: "result (PdfReader_get_prompt c ?after question pdf_files) = result ?got
          \<and> events (PdfReader_get_prompt c ?after question pdf_files) = events ?got"
        by (intro PdfReader_get_prompt_again) (simp_all add: keeps)
      obtain llm'' where second: "llm_ask llm' prompts = Inr (resp, llm'')"
        using llm_ask_again [OF assms] answered pair by blast
      have "llm' \<noteq> NoLLM"
        using second by auto
      then show ?thesis
        using present Inr answered pair again second
        by (simp add: PdfReader_ask_def Let_def after keeps)
    qed
  qed
qed

lemma constant_responder_init:
  "Agent_init example_core (constant_client response) (Some ''GenericResponder'') [] None
     = Inr (constant_responder response)"
  by (simp add: Agent_init_def constant_responder_def example_core_def)


section \<open>FunctionCaller.get_function\<close>




text \<open>
  Claim C2. When the response parses to an object whose \<^verbatim>\<open>function\<close> value names a
  registered function and that has a \<^verbatim>\<open>parameters\<close> value, \<^verbatim>\<open>get_function\<close> returns the
  registered function, the \<^verbatim>\<open>parameters\<close> value as parsed, the two-message transcript it
  sent, and the raw response. The witness is the \<^verbatim>\<open>get_weather\<close> scenario.
\<close>

theorem get_function_success:
  assumes "fc_llm self = LLM f s"
    and "f s [fc_system_prompt self, user_message question] = (response, s')"
    and "safe_read_json c response = JObj items"
    and "map_of items ''function'' = Some (JStr name)"
    and "map_of items ''parameters'' = Some parameters"
    and "fc_functions_dict self name = Some func"
  shows "FunctionCaller_get_function c self question =
           \<lparr>result = Inr (Some \<lparr>dec_function = func,
                                 dec_parameters = parameters,
                                 dec_prompts = [fc_system_prompt self, user_message question],
                                 dec_raw_response = response\<rparr>),
            self_after = self\<lparr>fc_llm := LLM f s'\<rparr>,
            events = [LlmAsk [fc_system_prompt self, user_message question]]\<rparr>"
  using assms get_function_asks [OF assms(1,2)]
  by (simp add: FunctionCaller_get_function_def Let_def)

theorem get_function_success_witness:
  "FunctionCaller_init example_core (scripted [weather_text]) (Some [get_weather]) [] None
     = Inr (weather_caller [weather_text])
   \<and> result (FunctionCaller_get_function example_core (weather_caller [weather_text])
        ''What's the weather in Paris?'')
     = Inr (Some \<lparr>dec_function = get_weather,
                   dec_parameters = JObj [(''city'', JStr ''Paris'')],
                   dec_prompts = [system_message ''FunctionCallerget_weather'',
                                  user_message ''What's the weather in Paris?''],
                   dec_raw_response = weather_text\<rparr>)"
proof -
  have 1: "fc_llm (weather_caller [weather_text]) =
      LLM (\<lambda>s prompts. case s of [] \<Rightarrow> ([], []) | r # rest \<Rightarrow> (r, rest)) [weather_text]"
    by (simp add: weather_caller_def scripted_def)
  have 2: "(case [weather_text] of [] \<Rightarrow> ([], []) | r # rest \<Rightarrow> (r, rest)) = (weather_text, [])"
    by simp
  have 3: "safe_read_json example_core weather_text
             = JObj [(''function'', JStr ''get_weather''),
                     (''parameters'', JObj [(''city'', JStr ''Paris'')])]"
    by (simp add: example_core_def weather_text_def)
  have 4: "map_of [(''function'', JStr ''get_weather''),
                   (''parameters'', JObj [(''city'', JStr ''Paris'')])] ''function''
             = Some (JStr ''get_weather'')"
    by simp
  have 5: "map_of [(''function'', JStr ''get_weather''),
                   (''parameters'', JObj [(''city'', JStr ''Paris'')])] ''parameters''
             = Some (JObj [(''city'', JStr ''Paris'')])"
    by simp
  have 6: "fc_functions_dict (weather_caller [weather_text]) ''get_weather'' = Some get_weather"
    by (simp add: weather_caller_def)
  show ?thesis
    using get_function_success [where c = example_core and question = "''What's the weather in Paris?''",
        OF 1 2 3 4 5 6]
      weather_caller_init
    by (simp add: weather_caller_def)
qed


section \<open>The registry\<close>

text \<open>
  Claim C5. Whenever the constructor's prompt formatting succeeds, construction succeeds
  for every list of functions, duplicates or not; the registry's keys are the names of the
  supplied functions, and each name resolves to the last function of the list with that
  name.
\<close>

theorem registry_last_registration_wins:
  assumes "str_format c
             (case custom_system_prompt of
                None \<Rightarrow> get_yaml_prompt c ''system_prompts.yaml'' ''FunctionCaller''
              | Some custom \<Rightarrow> custom)
             [(''schema'', generate_schema c funcs),
              (''additional_instructions'', additional_system_instructions)]
           = Some text"
  shows "\<exists>self. FunctionCaller_init c llm (Some funcs) additional_system_instructions
                  custom_system_prompt = Inr self
               \<and> dom (fc_functions_dict self) = func_name ` set funcs
               \<and> (\<forall>name. fc_functions_dict self name
                     = find (\<lambda>func. func_name func = name) (rev funcs))"
proof -
  have "(functions_dict funcs name \<noteq> None) = (name \<in> func_name ` set funcs)" for name
    by (auto simp add: functions_dict_last_wins find_None_iff)
  then have "dom (functions_dict funcs) = func_name ` set funcs"
    unfolding dom_def by blast
  then show ?thesis
    using assms
    by (simp add: FunctionCaller_init_def Let_def functions_dict_last_wins)
qed

theorem registry_last_registration_wins_witness:
  "str_format example_core (get_yaml_prompt example_core ''system_prompts.yaml'' ''FunctionCaller'')
     [(''schema'', generate_schema example_core [get_weather, get_weather_again]),
      (''additional_instructions'', [])]
     = Some ''FunctionCallerget_weatherget_weather''
   \<and> (\<exists>self. FunctionCaller_init example_core NoLLM (Some [get_weather, get_weather_again]) [] None
               = Inr self
            \<and> fc_functions_dict self ''get_weather'' = Some get_weather_again)"
proof -
  have fmt: "str_format example_core
               (case None of
                  None \<Rightarrow> get_yaml_prompt example_core ''system_prompts.yaml'' ''FunctionCaller''
                | Some custom \<Rightarrow> custom)
               [(''schema'', generate_schema example_core [get_weather, get_weather_again]),
                (''additional_instructions'', [])]
             = Some ''FunctionCallerget_weatherget_weather''"
    by (simp add: example_core_def get_weather_def get_weather_again_def)
  have last: "find (\<lambda>func. func_name func = ''get_weather'') (rev [get_weather, get_weather_again])
              = Some get_weather_again"
    by (simp add: get_weather_def get_weather_again_def)
  from registry_last_registration_wins [OF fmt, of NoLLM] fmt last
  show ?thesis by auto
qed


section \<open>OnlineAgent.search\<close>








section \<open>A client with no ask operation\<close>

text \<open>
  Claim C7. The docstring of \<^verbatim>\<open>get_function\<close> promises a \<^verbatim>\<open>ValueError\<close> when the client is
  missing or has no \<^verbatim>\<open>ask\<close> function. For a missing client the code raises it; for a client
  without \<^verbatim>\<open>ask\<close> it warns and returns \<^verbatim>\<open>None\<close>, as the run below shows.
\<close>

theorem get_function_without_ask_returns_None:
  "FunctionCaller_get_function example_core ((weather_caller [])\<lparr>fc_llm := LLMNoAsk\<rparr>)
     ''What's the weather in Paris?''
   = \<lparr>result = Inr None, self_after = (weather_caller [])\<lparr>fc_llm := LLMNoAsk\<rparr>,
      events = [Warn WarnNoAsk]\<rparr>"
  by (simp add: FunctionCaller_get_function_def)

lemma get_function_without_client_raises:
  "fc_llm self = NoLLM \<Longrightarrow>
     FunctionCaller_get_function c self question
       = \<lparr>result = Inl ValueError, self_after = self, events = []\<rparr>"
  by (simp add: FunctionCaller_get_function_def)

section \<open>PdfReader\<close>


section \<open>Transcripts\<close>

text \<open>
  Claim C3, as stated, fails: the URL-picker call of \<^verbatim>\<open>OnlineAgent.search\<close> sends a transcript
  of one system message, with the question and the URLs inside it, and no user message.
\<close>

theorem url_picker_transcript_counterexample:
  "\<not> list_all system_then_user
       (asked (events (OnlineAgent_search example_core
          (example_searcher capital_responses) ''What is the capital of France?'')))"
  by (simp add: OnlineAgent_search_def OnlineAgent_get_search_query_def get_if_present_def
      example_searcher_def scripted_def capital_responses_def example_core_def Let_def
      Agent_init_def Agent_ask_def system_message_def user_message_def system_then_user_def)

text \<open>
  Claim C3, amended. The constructors store a system-role message. Every transcript that
  \<^verbatim>\<open>FunctionCaller.get_function\<close>, \<^verbatim>\<open>PdfReader.ask\<close>, \<^verbatim>\<open>Agent.ask\<close> and
  \<^verbatim>\<open>OnlineAgent.get_search_query\<close> send is one system message followed by one user message.
  \<^verbatim>\<open>OnlineAgent.search\<close> sends at most three transcripts, in this order: system and user for
  the query, one system message alone for the URL picker, system and user for the final
  answer.
\<close>

theorem transcripts_sent_to_client:
  "(FunctionCaller_init c llm funcs additional custom = Inr new_caller
      \<longrightarrow> role (fc_system_prompt new_caller) = ''system'')
   \<and> (Agent_init c llm agent_type additional custom = Inr new_agent
      \<longrightarrow> role (ag_system_prompt new_agent) = ''system'')
   \<and> (OnlineAgent_init c llm additional searcher = Inr new_searcher
      \<longrightarrow> role (oa_system_prompt new_searcher) = ''system'')
   \<and> (role (fc_system_prompt caller) = ''system''
      \<longrightarrow> list_all system_then_user
            (asked (events (FunctionCaller_get_function c caller question))))
   \<and> list_all system_then_user (asked (events (PdfReader_ask c reader question pdf_files)))
   \<and> (role (ag_system_prompt agent) = ''system''
      \<longrightarrow> list_all system_then_user (asked (events (Agent_ask agent question))))
   \<and> (role (oa_system_prompt online) = ''system''
      \<longrightarrow> list_all system_then_user
            (asked (events (OnlineAgent_get_search_query c online question)))
        \<and> prefix (map (map role) (asked (events (OnlineAgent_search c online question))))
            [[''system'', ''user''], [''system''], [''system'', ''user'']])"
proof (intro conjI impI)
  show "role (fc_system_prompt new_caller) = ''system''"
    if "FunctionCaller_init c llm funcs additional custom = Inr new_caller"
    using that by (rule FunctionCaller_init_system_prompt)
  show "role (ag_system_prompt new_agent) = ''system''"
    if "Agent_init c llm agent_type additional custom = Inr new_agent"
    using that by (rule Agent_init_system_prompt)
  show "role (oa_system_prompt new_searcher) = ''system''"
    if "OnlineAgent_init c llm additional searcher = Inr new_searcher"
    using that by (rule OnlineAgent_init_system_prompt)
  show "list_all system_then_user (asked (events (FunctionCaller_get_function c caller question)))"
    if "role (fc_system_prompt caller) = ''system''"
    using that get_function_asked [of c caller question]
    by (auto simp add: system_then_user_def user_message_def)
  show "list_all system_then_user (asked (events (PdfReader_ask c reader question pdf_files)))"
    by (rule PdfReader_ask_asked)
  show "list_all system_then_user (asked (events (Agent_ask agent question)))"
    if "role (ag_system_prompt agent) = ''system''"
    using that Agent_ask_asked [of agent question]
    by (auto simp add: system_then_user_def user_message_def)
  show "list_all system_then_user
          (asked (events (OnlineAgent_get_search_query c online question)))"
    if "role (oa_system_prompt online) = ''system''"
    using that get_search_query_asked [of c online question]
    by (auto simp add: system_then_user_def user_message_def)
  show "prefix (map (map role) (asked (events (OnlineAgent_search c online question))))
          [[''system'', ''user''], [''system''], [''system'', ''user'']]"
    if "role (oa_system_prompt online) = ''system''"
    using that by (rule search_asked)
qed

theorem transcripts_sent_to_client_witness:
  "FunctionCaller_init example_core (scripted [weather_text]) (Some [get_weather]) [] None
     = Inr (weather_caller [weather_text])
   \<and> asked (events (FunctionCaller_get_function example_core (weather_caller [weather_text])
        ''What's the weather in Paris?''))
     = [[system_message ''FunctionCallerget_weather'',
         user_message ''What's the weather in Paris?'']]
   \<and> list_all system_then_user
        (asked (events (FunctionCaller_get_function example_core (weather_caller [weather_text])
           ''What's the weather in Paris?'')))
   \<and> Agent_init example_core (constant_client ''Paris.'') (Some ''GenericResponder'') [] None
     = Inr (constant_responder ''Paris.'')
   \<and> list_all system_then_user
        (asked (events (Agent_ask (constant_responder ''Paris.'')
           ''What is the capital of France?'')))
   \<and> OnlineAgent_init example_core (scripted capital_responses) [] None
     = Inr (example_searcher capital_responses)
   \<and> list_all system_then_user
        (asked (events (OnlineAgent_get_search_query example_core
           (example_searcher capital_responses) ''What is the capital of France?'')))
   \<and> prefix (map (map role) (asked (events (OnlineAgent_search example_core
         (example_searcher capital_responses) ''What is the capital of France?''))))
        [[''system'', ''user''], [''system''], [''system'', ''user'']]"
proof -
  note shape = transcripts_sent_to_client
    [where c = example_core and caller = "weather_caller [weather_text]"
       and agent = "constant_responder ''Paris.''"
       and online = "example_searcher capital_responses"]
  have caller: "role (fc_system_prompt (weather_caller [weather_text])) = ''system''"
    using shape [THEN conjunct1, rule_format, OF weather_caller_init] .
  have agent: "role (ag_system_prompt (constant_responder ''Paris.'')) = ''system''"
    using shape [THEN conjunct2, THEN conjunct1, rule_format, OF constant_responder_init] .
  have online: "role (oa_system_prompt (example_searcher capital_responses)) = ''system''"
    using shape [THEN conjunct2, THEN conjunct2, THEN conjunct1, rule_format,
        OF example_searcher_init] .
  have sent: "asked (events (FunctionCaller_get_function example_core
        (weather_caller [weather_text]) ''What's the weather in Paris?''))
     = [[system_message ''FunctionCallerget_weather'',
         user_message ''What's the weather in Paris?'']]"
    by (simp add: FunctionCaller_get_function_def weather_caller_def scripted_def Let_def
        example_core_def weather_text_def)
  from shape [THEN conjunct2, THEN conjunct2, THEN conjunct2, THEN conjunct1, rule_format,
      OF caller, of "''What's the weather in Paris?''"]
    shape [THEN conjunct2, THEN conjunct2, THEN conjunct2, THEN conjunct2, THEN conjunct2,
      THEN conjunct1, rule_format, OF agent, of "''What is the capital of France?''"]
    shape [THEN conjunct2, THEN conjunct2, THEN conjunct2, THEN conjunct2, THEN conjunct2,
      THEN conjunct2, rule_format, OF online, of "''What is the capital of France?''"]
    weather_caller_init constant_responder_init example_searcher_init sent
  show ?thesis by simp
qed

section \<open>The stored system prompt\<close>

text \<open>
  Claim C8, as stated, fails for PdfReader: its constructor stores the template text, and
  every call of \<^verbatim>\<open>get_prompt\<close> that reads its files assigns \<^verbatim>\<open>self.system_prompt\<close> anew.
\<close>

theorem PdfReader_system_prompt_counterexample:
  "pr_system_prompt (self_after (PdfReader_ask example_core (constant_reader ''Paris.'')
       ''What is the capital of France?'' (Some [''france.pdf''])))
   \<noteq> pr_system_prompt (constant_reader ''Paris.'')"
  by (simp add: PdfReader_ask_def PdfReader_get_prompt_def constant_reader_def PdfReader_init_def
      constant_client_def example_core_def Let_def)

text \<open>
  Claim C8, amended. \<^verbatim>\<open>FunctionCaller.get_function\<close>, \<^verbatim>\<open>Agent.ask\<close>,
  \<^verbatim>\<open>OnlineAgent.get_search_query\<close> and \<^verbatim>\<open>OnlineAgent.search\<close> leave the stored system prompt
  as it was. A PdfReader keeps its custom prompt and its additional instructions, and its
  \<^verbatim>\<open>get_prompt\<close> overwrites the stored system prompt on every call that is given a file
  list: with the message compiled from the template and the documents of that call, or
  with the template text when the formatting raises. \<^verbatim>\<open>PdfReader.ask\<close> does the same through
  \<^verbatim>\<open>get_prompt\<close> unless there is no client.
\<close>

theorem system_prompt_after_operations:
  "fc_system_prompt (self_after (FunctionCaller_get_function c caller question))
     = fc_system_prompt caller
   \<and> ag_system_prompt (self_after (Agent_ask agent question)) = ag_system_prompt agent
   \<and> oa_system_prompt (self_after (OnlineAgent_get_search_query c online question))
     = oa_system_prompt online
   \<and> oa_system_prompt (self_after (OnlineAgent_search c online question))
     = oa_system_prompt online
   \<and> pr_custom_system_prompt (self_after (PdfReader_ask c reader question pdf_files))
     = pr_custom_system_prompt reader
   \<and> pr_additional_instructions (self_after (PdfReader_ask c reader question pdf_files))
     = pr_additional_instructions reader
   \<and> pr_system_prompt (self_after (PdfReader_get_prompt c reader question None))
     = pr_system_prompt reader
   \<and> pr_system_prompt (self_after (PdfReader_get_prompt c reader question (Some files)))
     = (let template = (case pr_custom_system_prompt reader of
                          None \<Rightarrow> get_yaml_prompt c ''system_prompts.yaml'' ''DocumentReader''
                        | Some custom \<Rightarrow> custom)
        in case str_format c template
                  [(''documents'', pdf_text_loop c [] files),
                   (''additional_instructions'', pr_additional_instructions reader)] of
             None \<Rightarrow> PromptText template
           | Some text \<Rightarrow> PromptMessage (system_message text))
   \<and> pr_system_prompt (self_after (PdfReader_ask c reader question pdf_files))
     = (case pr_llm reader of
          NoLLM \<Rightarrow> pr_system_prompt reader
        | _ \<Rightarrow> pr_system_prompt (self_after (PdfReader_get_prompt c reader question pdf_files)))"
proof (intro conjI)
  show "fc_system_prompt (self_after (FunctionCaller_get_function c caller question))
          = fc_system_prompt caller"
    by (simp add: FunctionCaller_get_function_def Let_def
        split: sum.splits option.splits prod.splits)
  show "ag_system_prompt (self_after (Agent_ask agent question)) = ag_system_prompt agent"
    by (simp add: Agent_ask_def Let_def split: sum.splits prod.splits)
  show query: "oa_system_prompt (self_after (OnlineAgent_get_search_query c online question))
          = oa_system_prompt online"
    by (simp add: OnlineAgent_get_search_query_def Let_def
        split: sum.splits option.splits prod.splits)
  show "oa_system_prompt (self_after (OnlineAgent_search c online question))
          = oa_system_prompt online"
    using query
    by (simp add: OnlineAgent_search_def Let_def split: sum.splits option.splits prod.splits)
  show "pr_custom_system_prompt (self_after (PdfReader_ask c reader question pdf_files))
          = pr_custom_system_prompt reader"
    by (simp add: PdfReader_ask_def PdfReader_get_prompt_def Let_def
        split: sum.splits option.splits prod.splits)
  show "pr_additional_instructions (self_after (PdfReader_ask c reader question pdf_files))
          = pr_additional_instructions reader"
    by (simp add: PdfReader_ask_def PdfReader_get_prompt_def Let_def
        split: sum.splits option.splits prod.splits)
  show "pr_system_prompt (self_after (PdfReader_get_prompt c reader question None))
          = pr_system_prompt reader"
    by (simp add: PdfReader_get_prompt_def)
  show "pr_system_prompt (self_after (PdfReader_get_prompt c reader question (Some files)))
     = (let template = (case pr_custom_system_prompt reader of
                          None \<Rightarrow> get_yaml_prompt c ''system_prompts.yaml'' ''DocumentReader''
                        | Some custom \<Rightarrow> custom)
        in case str_format c template
                  [(''documents'', pdf_text_loop c [] files),
                   (''additional_instructions'', pr_additional_instructions reader)] of
             None \<Rightarrow> PromptText template
           | Some text \<Rightarrow> PromptMessage (system_message text))"
    by (simp add: PdfReader_get_prompt_def Let_def split: option.splits)
  show "pr_system_prompt (self_after (PdfReader_ask c reader question pdf_files))
     = (case pr_llm reader of
          NoLLM \<Rightarrow> pr_system_prompt reader
        | _ \<Rightarrow> pr_system_prompt (self_after (PdfReader_get_prompt c reader question pdf_files)))"
    by (simp add: PdfReader_ask_def Let_def split: sum.splits prod.splits llm.splits)
qed

section \<open>Asking twice\<close>

text \<open>
  Claim C9. With a client whose response depends on the transcript alone, asking an Agent or
  a PdfReader the same thing a second time, on the instance the first call left, gives
  the same result (or the same exception) and the same events.
\<close>

theorem asking_twice_gives_the_same_answer:
  "(deterministic (ag_llm agent) \<longrightarrow>
      result (Agent_ask (self_after (Agent_ask agent prompt)) prompt)
        = result (Agent_ask agent prompt)
      \<and> events (Agent_ask (self_after (Agent_ask agent prompt)) prompt)
        = events (Agent_ask agent prompt))
   \<and> (deterministic (pr_llm reader) \<longrightarrow>
      result (PdfReader_ask c (self_after (PdfReader_ask c reader question pdf_files))
          question pdf_files)
        = result (PdfReader_ask c reader question pdf_files)
      \<and> events (PdfReader_ask c (self_after (PdfReader_ask c reader question pdf_files))
          question pdf_files)
        = events (PdfReader_ask c reader question pdf_files))"
  using Agent_ask_twice PdfReader_ask_twice by blast

theorem asking_twice_gives_the_same_answer_witness:
  "deterministic (ag_llm (constant_responder ''Paris.''))
   \<and> deterministic (pr_llm (constant_reader ''Paris.''))
   \<and> result (Agent_ask (constant_responder ''Paris.'') ''What is the capital of France?'')
     = Inr (Some ''Paris.'')
   \<and> result (Agent_ask
        (self_after (Agent_ask (constant_responder ''Paris.'') ''What is the capital of France?''))
        ''What is the capital of France?'')
     = Inr (Some ''Paris.'')
   \<and> result (PdfReader_ask example_core (constant_reader ''Paris.'')
        ''What is the capital of France?'' (Some [''france.pdf'']))
     = Inr ''Paris.''
   \<and> result (PdfReader_ask example_core
        (self_after (PdfReader_ask example_core (constant_reader ''Paris.'')
           ''What is the capital of France?'' (Some [''france.pdf''])))
        ''What is the capital of France?'' (Some [''france.pdf'']))
     = Inr ''Paris.''"
proof -
  have agent: "deterministic (ag_llm (constant_responder ''Paris.''))"
    by (simp add: deterministic_def constant_responder_def constant_client_def)
  have reader: "deterministic (pr_llm (constant_reader ''Paris.''))"
    by (simp add: deterministic_def constant_reader_def PdfReader_init_def constant_client_def)
  have first_agent:
    "result (Agent_ask (constant_responder ''Paris.'') ''What is the capital of France?'')
       = Inr (Some ''Paris.'')"
    by (simp add: Agent_ask_def constant_responder_def constant_client_def)
  have first_reader:
    "result (PdfReader_ask example_core (constant_reader ''Paris.'')
        ''What is the capital of France?'' (Some [''france.pdf'']))
       = Inr ''Paris.''"
    by (simp add: PdfReader_ask_def PdfReader_get_prompt_def constant_reader_def
        PdfReader_init_def constant_client_def example_core_def Let_def)
  note twice = asking_twice_gives_the_same_answer
    [where agent = "constant_responder ''Paris.''" and reader = "constant_reader ''Paris.''"
       and c = example_core]
  from twice [THEN conjunct1, rule_format, OF agent, of "''What is the capital of France?''"]
    twice [THEN conjunct2, rule_format, OF reader, of "''What is the capital of France?''"
      "Some [''france.pdf'']"]
    agent reader first_agent first_reader
  show ?thesis by simp
qed

end
